theory Spec2Isabelle
  imports Main
begin

section \<open>Rate limiter (utils/rateLimiter.js)\<close>

text \<open>
  Timestamps are the integers returned by \<open>Date.now()\<close> (milliseconds). The limiter
  keeps, for every identifier, the array of timestamps of the admitted requests.
  \<open>Math.min\<close> of an empty argument list is \<open>Infinity\<close> in JavaScript, so the
  computed wait time is a number that may be infinite. The thrown \<open>Error\<close> carries a
  message with the wait time rounded up to seconds; the error of the model carries
  the computed \<open>waitTime\<close> itself.
\<close>

type_synonym time = int

datatype jsnum = Finite int | PosInfinity

record RateLimiter =
  maxRequests :: int
  timeWindowMs :: int
  requests :: "string \<rightharpoonup> time list"

datatype error =
    RateLimitExceeded jsnum
  | SessionNotFound
  | NotConnected
  | NetworkUnreachable
  | SocketCreationFailed
  | TransportFailure

fun math_min :: "int list \<Rightarrow> jsnum" where
  "math_min [] = PosInfinity"
| "math_min (x # xs) = (case math_min xs of PosInfinity \<Rightarrow> Finite x | Finite m \<Rightarrow> Finite (min x m))"

fun waitTime :: "int \<Rightarrow> time \<Rightarrow> jsnum \<Rightarrow> jsnum" where
  "waitTime window now (Finite oldestRequest) = Finite (window - (now - oldestRequest))"
| "waitTime window now PosInfinity = PosInfinity"

definition validRequests :: "RateLimiter \<Rightarrow> time \<Rightarrow> string \<Rightarrow> time list" where
  "validRequests lim now identifier =
     (let userRequests = (case requests lim identifier of None \<Rightarrow> [] | Some ts \<Rightarrow> ts)
      in filter (\<lambda>timestamp. now - timestamp < timeWindowMs lim) userRequests)"

definition checkLimit :: "RateLimiter \<Rightarrow> time \<Rightarrow> string \<Rightarrow> (error + bool) \<times> RateLimiter" where
  "checkLimit lim now identifier =
     (let valid = validRequests lim now identifier
      in if maxRequests lim \<le> int (length valid)
         then (Inl (RateLimitExceeded (waitTime (timeWindowMs lim) now (math_min valid))), lim)
         else (Inr True, lim\<lparr>requests := (requests lim)(identifier \<mapsto> valid @ [now])\<rparr>))"

text \<open>A caller issuing one check after the other for the same identifier, at the given times.\<close>

fun checkLimits :: "RateLimiter \<Rightarrow> string \<Rightarrow> time list \<Rightarrow> (error + bool) list \<times> RateLimiter" where
  "checkLimits lim identifier [] = ([], lim)"
| "checkLimits lim identifier (t # ts) =
     (let (r, lim') = checkLimit lim t identifier;
          (rs, lim'') = checkLimits lim' identifier ts
      in (r # rs, lim''))"

text \<open>The two limiters created by the module.\<close>

definition whatsappLimiter :: RateLimiter where
  "whatsappLimiter = \<lparr>maxRequests = 30, timeWindowMs = 60000, requests = Map.empty\<rparr>"

definition emailLimiter :: RateLimiter where
  "emailLimiter = \<lparr>maxRequests = 50, timeWindowMs = 3600000, requests = Map.empty\<rparr>"

section \<open>Session records and the process state (services/whatsappService.js)\<close>

text \<open>
  \<open>sessionData\<close> objects are shared between the \<open>activeSessions\<close> map, the event
  handlers that captured them and the timer callbacks, so they live in a store
  (\<open>heap\<close>) and are referred to by address. \<open>activeSessions\<close> maps a session id to the
  address of its current record. The fields \<open>state\<close> and \<open>saveCreds\<close> hold values of
  the client library and are left out. The directory \<open>auth_sessions/<sessionId>\<close> is
  \<open>auth_sessions w sessionId\<close>: \<open>None\<close> when it does not exist, \<open>Some b\<close> when it does,
  with \<open>b\<close> telling whether it contains \<open>creds.json\<close>; file operations succeed.
  \<open>timers\<close> is the queue of pending \<open>setTimeout\<close> callbacks; all callbacks of the
  module have the same body and differ in the captured record, session id and delay.
  \<open>ended\<close> lists the sockets on which \<open>end()\<close> was called, \<open>logged_out\<close> those on
  which \<open>logout()\<close> was called.
\<close>

type_synonym sid = string
type_synonym ref = nat
type_synonym sock = nat
type_synonym tid = nat

record session =
  socket :: "sock option"
  isConnected :: bool
  qrCode :: "string option"
  qrGeneratedAt :: "time option"
  qrScanned :: bool
  phoneNumber :: "string option"
  status :: string
  reconnectTimer :: "tid option"

record timer =
  t_id :: tid
  t_owner :: ref
  t_sid :: sid
  t_delay :: int

record world =
  heap :: "ref \<Rightarrow> session"
  activeSessions :: "sid \<rightharpoonup> ref"
  auth_sessions :: "sid \<rightharpoonup> bool"
  timers :: "timer list"
  ended :: "sock list"
  logged_out :: "sock list"
  next_ref :: ref
  next_sock :: sock
  next_tid :: tid

text \<open>
  The status codes \<open>DisconnectReason.loggedOut\<close> and
  \<open>DisconnectReason.restartRequired\<close> are constants of the client library; the model
  takes them as a parameter. \<open>baileys\<close> holds the values the library gives them.
\<close>

record DisconnectReason =
  loggedOut :: int
  restartRequired :: int

definition baileys :: DisconnectReason where
  "baileys = \<lparr>loggedOut = 401, restartRequired = 515\<rparr>"

text \<open>
  A \<open>connection.update\<close> event: \<open>connection\<close>, \<open>qr\<close>, and
  \<open>lastDisconnect?.error?.output?.statusCode\<close> (\<open>None\<close> when undefined).
\<close>

record update =
  connection :: "string option"
  statusCode :: "int option"
  qr :: "string option"

text \<open>Outcomes of the external calls made by \<open>initializeWhatsApp\<close>.\<close>

record env =
  net_reachable :: bool
  socket_creatable :: bool

text \<open>JavaScript truthiness of a value that is a string, \<open>null\<close> or \<open>undefined\<close>.\<close>

definition truthy :: "string option \<Rightarrow> bool" where
  "truthy v = (case v of None \<Rightarrow> False | Some x \<Rightarrow> x \<noteq> [])"

definition setTimeout :: "ref \<Rightarrow> sid \<Rightarrow> int \<Rightarrow> world \<Rightarrow> tid \<times> world" where
  "setTimeout r sessionId delay w =
     (next_tid w,
      w\<lparr>timers := timers w @ [\<lparr>t_id = next_tid w, t_owner = r, t_sid = sessionId, t_delay = delay\<rparr>],
        next_tid := next_tid w + 1\<rparr>)"

definition clearTimeout :: "tid \<Rightarrow> world \<Rightarrow> world" where
  "clearTimeout t w = w\<lparr>timers := filter (\<lambda>x. t_id x \<noteq> t) (timers w)\<rparr>"

text \<open>
  \<open>if (!sessionData.reconnectTimer) { sessionData.reconnectTimer = setTimeout(..., delay) }\<close>
\<close>

definition schedule_reconnect :: "ref \<Rightarrow> sid \<Rightarrow> int \<Rightarrow> session \<Rightarrow> world \<Rightarrow> session \<times> world" where
  "schedule_reconnect r sessionId delay s w =
     (if reconnectTimer s = None
      then (let (t, w') = setTimeout r sessionId delay w in (s\<lparr>reconnectTimer := Some t\<rparr>, w'))
      else (s, w))"

text \<open>
  \<open>if (sessionData.reconnectTimer) { clearTimeout(sessionData.reconnectTimer);
  sessionData.reconnectTimer = null }\<close>
\<close>

definition clear_reconnect :: "session \<Rightarrow> world \<Rightarrow> session \<times> world" where
  "clear_reconnect s w =
     (case reconnectTimer s of
        None \<Rightarrow> (s, w)
      | Some t \<Rightarrow> (s\<lparr>reconnectTimer := None\<rparr>, clearTimeout t w))"

subsection \<open>The \<open>connection.update\<close> handler\<close>

definition on_qr :: "time \<Rightarrow> update \<Rightarrow> session \<Rightarrow> session" where
  "on_qr now u s =
     (if truthy (qr u)
      then s\<lparr>qrCode := qr u, qrGeneratedAt := Some now, status := ''qr_pending''\<rparr>
      else s)"

text \<open>\<open>socket.user?.id?.split(':')[0] || null\<close>\<close>

definition phone_of :: "string option \<Rightarrow> string option" where
  "phone_of user_id =
     (case user_id of
        None \<Rightarrow> None
      | Some i \<Rightarrow> (let p = takeWhile (\<lambda>c. c \<noteq> CHR '':'') i in if p = [] then None else Some p))"

definition on_open :: "string option \<Rightarrow> session \<Rightarrow> world \<Rightarrow> session \<times> world" where
  "on_open user_id s w =
     (let (s1, w1) = clear_reconnect s w
      in (s1\<lparr>isConnected := True, status := ''connected'', qrCode := None,
             phoneNumber := phone_of user_id\<rparr>, w1))"

definition isExpired :: "time \<Rightarrow> time \<Rightarrow> bool" where
  "isExpired now generatedAt = (let qrAge = now - generatedAt in qrAge > 180000)"

definition on_close ::
  "DisconnectReason \<Rightarrow> ref \<Rightarrow> sid \<Rightarrow> time \<Rightarrow> update \<Rightarrow> session \<Rightarrow> world \<Rightarrow> session \<times> world" where
  "on_close dr r sessionId now u s0 w =
     (let s = s0\<lparr>isConnected := False\<rparr>
      in if statusCode u = Some (loggedOut dr)
         then (let (s1, w1) = clear_reconnect (s\<lparr>status := ''disconnected''\<rparr>) w;
                   w2 = w1\<lparr>activeSessions := (activeSessions w1)(sessionId := None)\<rparr>;
                   w3 = (if auth_sessions w2 sessionId \<noteq> None
                         then w2\<lparr>auth_sessions := (auth_sessions w2)(sessionId := None)\<rparr>
                         else w2)
               in (s1, w3))
         else if statusCode u = Some 515 \<or> statusCode u = Some 428
                 \<or> statusCode u = Some (restartRequired dr)
         then (if qrScanned s
               then schedule_reconnect r sessionId 2000
                      (s\<lparr>status := ''reconnecting'', qrCode := None, qrScanned := False\<rparr>) w
               else if truthy (qrCode s)
               then (let s1 = s\<lparr>status := ''qr_pending''\<rparr>
                     in case qrGeneratedAt s1 of
                          None \<Rightarrow> (s1, w)
                        | Some g \<Rightarrow>
                            if isExpired now g
                            then schedule_reconnect r sessionId 2000 (s1\<lparr>status := ''reconnecting''\<rparr>) w
                            else (s1, w))
               else schedule_reconnect r sessionId 3000 (s\<lparr>status := ''reconnecting''\<rparr>) w)
         else (s\<lparr>status := ''failed''\<rparr>, w))"

text \<open>
  The handler registered by \<open>initializeWhatsApp sessionId\<close> on the socket of the record
  at address \<open>r\<close>. \<open>now\<close> is the clock during the (synchronous) handler, \<open>user_id\<close> is
  \<open>socket.user?.id\<close>. Every handler and every call of \<open>initializeWhatsApp\<close> is one
  step of the model: what other events do between the \<open>await\<close>s of a call is not
  modelled.
\<close>

definition connection_update ::
  "DisconnectReason \<Rightarrow> ref \<Rightarrow> sid \<Rightarrow> time \<Rightarrow> string option \<Rightarrow> update \<Rightarrow> world \<Rightarrow> world" where
  "connection_update dr r sessionId now user_id u w =
     (let s1 = on_qr now u (heap w r);
          (s2, w2) = (if connection u = Some ''open'' then on_open user_id s1 w else (s1, w));
          (s3, w3) = (if connection u = Some ''close'' then on_close dr r sessionId now u s2 w2
                      else (s2, w2))
      in w3\<lparr>heap := (heap w3)(r := s3)\<rparr>)"

subsection \<open>The \<open>creds.update\<close> handler\<close>

text \<open>
  \<open>saved\<close> tells whether \<open>await saveCreds()\<close> resolved; when it rejects, the rest of the
  handler does not run. A resolved \<open>saveCreds\<close> has written \<open>creds.json\<close>.
\<close>

definition creds_update :: "ref \<Rightarrow> sid \<Rightarrow> bool \<Rightarrow> world \<Rightarrow> world" where
  "creds_update r sessionId saved w =
     (if \<not> saved then w
      else (let w1 = w\<lparr>auth_sessions := (auth_sessions w)(sessionId \<mapsto> True)\<rparr>;
                s = heap w1 r
            in if truthy (qrCode s)
               then w1\<lparr>heap := (heap w1)(r := s\<lparr>qrScanned := True, status := ''authenticating''\<rparr>)\<rparr>
               else w1))"


subsection \<open>\<open>initializeWhatsApp\<close>\<close>

definition empty_world :: world where
  "empty_world =
     \<lparr>heap = (\<lambda>_. \<lparr>socket = None, isConnected = False, qrCode = None, qrGeneratedAt = None,
                    qrScanned = False, phoneNumber = None, status = [], reconnectTimer = None\<rparr>),
      activeSessions = Map.empty, auth_sessions = Map.empty, timers = [], ended = [],
      logged_out = [], next_ref = 0, next_sock = 0, next_tid = 0\<rparr>"

text \<open>
  The credential check before a connection attempt: a directory with \<open>creds.json\<close> is
  kept, a directory without it is removed, and the directory is created when absent.
\<close>

definition prepare_credentials :: "sid \<Rightarrow> world \<Rightarrow> world" where
  "prepare_credentials sessionId w =
     (let hasValidCredentials = (auth_sessions w sessionId = Some True);
          w1 = (if hasValidCredentials then w
                else if auth_sessions w sessionId \<noteq> None
                then w\<lparr>auth_sessions := (auth_sessions w)(sessionId := None)\<rparr>
                else w)
      in if auth_sessions w1 sessionId = None
         then w1\<lparr>auth_sessions := (auth_sessions w1)(sessionId \<mapsto> False)\<rparr>
         else w1)"

text \<open>
  The early returns on an existing record, then the clean-up of the existing record
  (\<open>socket.end()\<close> when it has a socket, \<open>activeSessions.delete\<close>), then the attempt:
  credentials, network check, socket creation, registration of the new record. The
  new \<open>sessionData\<close> object is allocated at \<open>next_ref\<close>, the new socket is \<open>next_sock\<close>.
\<close>

definition initializeWhatsApp :: "env \<Rightarrow> time \<Rightarrow> sid \<Rightarrow> world \<Rightarrow> (error + ref) \<times> world" where
  "initializeWhatsApp e now sessionId w =
     (let existing = activeSessions w sessionId;
          keep = (case existing of
                    None \<Rightarrow> False
                  | Some r \<Rightarrow>
                      (let existingSession = heap w r
                       in if isConnected existingSession then True
                          else if truthy (qrCode existingSession)
                                  \<and> qrGeneratedAt existingSession \<noteq> None
                                  \<and> \<not> qrScanned existingSession
                          then (case qrGeneratedAt existingSession of
                                  None \<Rightarrow> False
                                | Some g \<Rightarrow> \<not> isExpired now g)
                          else False))
      in case (existing, keep) of
           (Some r, True) \<Rightarrow> (Inr r, w)
         | _ \<Rightarrow>
           (let w0 = (case existing of
                        None \<Rightarrow> w
                      | Some r \<Rightarrow>
                          (let w' = (case socket (heap w r) of
                                       None \<Rightarrow> w
                                     | Some k \<Rightarrow> w\<lparr>ended := ended w @ [k]\<rparr>)
                           in w'\<lparr>activeSessions := (activeSessions w')(sessionId := None)\<rparr>));
                w1 = prepare_credentials sessionId w0
            in if \<not> net_reachable e then (Inl NetworkUnreachable, w1)
               else if \<not> socket_creatable e then (Inl SocketCreationFailed, w1)
               else (let k = next_sock w1;
                         r = next_ref w1;
                         sessionData = \<lparr>socket = Some k, isConnected = False, qrCode = None,
                                        qrGeneratedAt = None, qrScanned = False,
                                        phoneNumber = None, status = ''connecting'',
                                        reconnectTimer = None\<rparr>
                     in (Inr r,
                         w1\<lparr>heap := (heap w1)(r := sessionData),
                            activeSessions := (activeSessions w1)(sessionId \<mapsto> r),
                            next_sock := k + 1, next_ref := r + 1\<rparr>))))"

text \<open>
  A timer callback: \<open>sessionData.reconnectTimer = null\<close>, then
  \<open>initializeWhatsApp(sessionId)\<close>, whose failure sets \<open>sessionData.status = 'failed'\<close>.
  A timer that fires leaves the queue.
\<close>

definition fire_timer :: "env \<Rightarrow> time \<Rightarrow> timer \<Rightarrow> world \<Rightarrow> world" where
  "fire_timer e now t w =
     (let w1 = w\<lparr>timers := filter (\<lambda>x. t_id x \<noteq> t_id t) (timers w)\<rparr>;
          w2 = w1\<lparr>heap := (heap w1)(t_owner t := (heap w1 (t_owner t))\<lparr>reconnectTimer := None\<rparr>)\<rparr>;
          (res, w3) = initializeWhatsApp e now (t_sid t) w2
      in case res of
           Inl err \<Rightarrow> w3\<lparr>heap := (heap w3)(t_owner t := (heap w3 (t_owner t))\<lparr>status := ''failed''\<rparr>)\<rparr>
         | Inr r \<Rightarrow> w3)"

subsection \<open>Queries and sending\<close>

record qrData =
  qd_qrCode :: "string option"
  qd_status :: string
  qd_isConnected :: bool
  qd_phoneNumber :: "string option"
  qd_qrGeneratedAt :: "time option"

text \<open>
  \<open>qrGeneratedAt\<close> is handed over as an ISO string and read back by the route with
  \<open>new Date(...).getTime()\<close>, which gives the same millisecond count.
\<close>

definition getQRCode :: "sid \<Rightarrow> world \<Rightarrow> qrData option" where
  "getQRCode sessionId w =
     (case activeSessions w sessionId of
        None \<Rightarrow> None
      | Some r \<Rightarrow>
          (let session = heap w r
           in Some \<lparr>qd_qrCode = qrCode session, qd_status = status session,
                    qd_isConnected = isConnected session, qd_phoneNumber = phoneNumber session,
                    qd_qrGeneratedAt = qrGeneratedAt session\<rparr>))"

text \<open>
  The replies of \<open>GET /qr/:sessionId\<close>: 404, the expired reply
  \<open>{qrCode: null, status: 'qr_expired', isConnected, qrGeneratedAt}\<close>, and the reply that
  spreads the record's data.
\<close>

datatype qr_response = Qr404 | QrExpired bool "time option" | QrOk qrData

fun response_qrCode :: "qr_response \<Rightarrow> string option" where
  "response_qrCode Qr404 = None"
| "response_qrCode (QrExpired c g) = None"
| "response_qrCode (QrOk d) = qd_qrCode d"

fun response_status :: "qr_response \<Rightarrow> string option" where
  "response_status Qr404 = None"
| "response_status (QrExpired c g) = Some ''qr_expired''"
| "response_status (QrOk d) = Some (qd_status d)"

definition qr_route :: "time \<Rightarrow> sid \<Rightarrow> world \<Rightarrow> qr_response" where
  "qr_route now sessionId w =
     (case getQRCode sessionId w of
        None \<Rightarrow> Qr404
      | Some d \<Rightarrow>
          (case qd_qrGeneratedAt d of
             Some g \<Rightarrow>
               if truthy (qd_qrCode d) \<and> isExpired now g
               then QrExpired (qd_isConnected d) (qd_qrGeneratedAt d)
               else QrOk d
           | None \<Rightarrow> QrOk d))"

record sent =
  messageId :: string
  to :: string
  jid :: string

text \<open>
  \<open>transport\<close> is the outcome of \<open>session.socket.sendMessage\<close>: the message id, or
  \<open>None\<close> when the call fails.
\<close>

definition sendWhatsAppMessage ::
  "sid \<Rightarrow> string \<Rightarrow> string \<Rightarrow> string option \<Rightarrow> world \<Rightarrow> error + sent" where
  "sendWhatsAppMessage sessionId phone message transport w =
     (case activeSessions w sessionId of
        None \<Rightarrow> Inl SessionNotFound
      | Some r \<Rightarrow>
          if \<not> isConnected (heap w r) then Inl NotConnected
          else (let digitsOnly = filter (\<lambda>c. c \<in> set ''0123456789'') phone;
                    j = digitsOnly @ ''@s.whatsapp.net''
                in case transport of
                     None \<Rightarrow> Inl TransportFailure
                   | Some i \<Rightarrow> Inr \<lparr>messageId = i, to = phone, jid = j\<rparr>))"

datatype send_response = Send200 sent | Send429 error | Send500 error

text \<open>\<open>POST /send/:sessionId\<close>, after the validation middleware has let the request through.\<close>

definition send_route ::
  "RateLimiter \<Rightarrow> time \<Rightarrow> sid \<Rightarrow> string \<Rightarrow> string \<Rightarrow> string option \<Rightarrow> world
     \<Rightarrow> send_response \<times> RateLimiter" where
  "send_route lim now sessionId phone message transport w =
     (case checkLimit lim now sessionId of
        (Inl rateLimitError, lim') \<Rightarrow> (Send429 rateLimitError, lim')
      | (Inr ok, lim') \<Rightarrow>
          (case sendWhatsAppMessage sessionId phone message transport w of
             Inl err \<Rightarrow> (Send500 err, lim')
           | Inr result \<Rightarrow> (Send200 result, lim')))"

text \<open>\<open>DELETE /disconnect/:sessionId\<close>\<close>

definition disconnect_route :: "sid \<Rightarrow> world \<Rightarrow> world" where
  "disconnect_route sessionId w =
     (case activeSessions w sessionId of
        None \<Rightarrow> w
      | Some r \<Rightarrow>
          (let (s1, w1) = clear_reconnect (heap w r) w;
               w2 = w1\<lparr>heap := (heap w1)(r := s1)\<rparr>;
               w3 = (case socket s1 of
                       None \<Rightarrow> w2
                     | Some k \<Rightarrow>
                         if isConnected s1 then w2\<lparr>logged_out := logged_out w2 @ [k]\<rparr>
                         else w2\<lparr>ended := ended w2 @ [k]\<rparr>)
           in w3\<lparr>activeSessions := (activeSessions w3)(sessionId := None)\<rparr>))"

subsection \<open>Runs of the process\<close>

text \<open>
  What can happen to the process, one event at a time: an API call, an event of the
  socket of a record (delivered to the handlers that captured that record and its
  session id), or a timer that fires.
\<close>

datatype event =
    Connect env time sid
  | ConnectionUpdate ref sid time "string option" update
  | CredsUpdate ref sid bool
  | TimerFires env time tid
  | Disconnect sid

fun step :: "DisconnectReason \<Rightarrow> event \<Rightarrow> world \<Rightarrow> world" where
  "step dr (Connect e now sessionId) w = snd (initializeWhatsApp e now sessionId w)"
| "step dr (ConnectionUpdate r sessionId now user_id u) w =
     connection_update dr r sessionId now user_id u w"
| "step dr (CredsUpdate r sessionId saved) w = creds_update r sessionId saved w"
| "step dr (TimerFires e now t) w =
     (case find (\<lambda>x. t_id x = t) (timers w) of
        None \<Rightarrow> w
      | Some x \<Rightarrow> fire_timer e now x w)"
| "step dr (Disconnect sessionId) w = disconnect_route sessionId w"

definition run :: "DisconnectReason \<Rightarrow> event list \<Rightarrow> world \<Rightarrow> world" where
  "run dr evs w = fold (step dr) evs w"


subsection \<open>Inputs used in the examples\<close>

definition all_ok :: env where
  "all_ok = \<lparr>net_reachable = True, socket_creatable = True\<rparr>"

definition qr_event :: "string \<Rightarrow> update" where
  "qr_event q = \<lparr>connection = None, statusCode = None, qr = Some q\<rparr>"

definition open_event :: update where
  "open_event = \<lparr>connection = Some ''open'', statusCode = None, qr = None\<rparr>"

definition close_event :: "int \<Rightarrow> update" where
  "close_event c = \<lparr>connection = Some ''close'', statusCode = Some c, qr = None\<rparr>"

definition small_limiter :: RateLimiter where
  "small_limiter = \<lparr>maxRequests = 3, timeWindowMs = 60000, requests = Map.empty\<rparr>"

text \<open>
  Runs of one session \<open>s1\<close>, whose first record is allocated at address 0:
  a pairing code is generated at time 1000 (\<open>qr_run\<close>); it is then scanned
  (\<open>scan_run\<close>); or the connection closes with code 515 when the code is older than
  three minutes (\<open>expired_run\<close>); the session connects without pairing
  (\<open>connected_run\<close>) and later loses the connection with code 428
  (\<open>reconnecting_run\<close>). In \<open>two_timers_run\<close> the connection of the first record
  closes with code 428, the client calls \<open>POST /connect/s1\<close> again half a second
  later, and the connection of the second record closes with code 428 as well.
\<close>

definition qr_run :: "event list" where
  "qr_run = [Connect all_ok 0 ''s1'', ConnectionUpdate 0 ''s1'' 1000 None (qr_event ''2@abc'')]"

definition scan_run :: "event list" where
  "scan_run = qr_run @ [CredsUpdate 0 ''s1'' True]"

definition expired_run :: "event list" where
  "expired_run = qr_run @ [ConnectionUpdate 0 ''s1'' 200000 None (close_event 515)]"

definition connected_run :: "event list" where
  "connected_run =
     [Connect all_ok 0 ''s1'',
      ConnectionUpdate 0 ''s1'' 1000 (Some ''15551234567:3@s.whatsapp.net'') open_event]"

definition reconnecting_run :: "event list" where
  "reconnecting_run =
     connected_run @ [CredsUpdate 0 ''s1'' True, ConnectionUpdate 0 ''s1'' 5000 None (close_event 428)]"

definition two_timers_run :: "event list" where
  "two_timers_run =
     [Connect all_ok 0 ''s1'',
      ConnectionUpdate 0 ''s1'' 1000 None (close_event 428),
      Connect all_ok 1500 ''s1'',
      ConnectionUpdate 1 ''s1'' 2500 None (close_event 428)]"

lemmas handler_defs = connection_update_def on_qr_def on_open_def on_close_def
  schedule_reconnect_def clear_reconnect_def setTimeout_def clearTimeout_def isExpired_def

lemmas example_defs = run_def empty_world_def all_ok_def qr_event_def open_event_def
  close_event_def baileys_def initializeWhatsApp_def prepare_credentials_def creds_update_def
  truthy_def getQRCode_def phone_of_def qr_run_def scan_run_def expired_run_def
  connected_run_def reconnecting_run_def two_timers_run_def

section \<open>Properties of the rate limiter\<close>

lemma checkLimits_ok:
  "requests lim k = Some pre \<Longrightarrow> sorted_wrt (\<lambda>a b. b - a < timeWindowMs lim) (pre @ ts)
   \<Longrightarrow> int (length pre + length ts) \<le> maxRequests lim
   \<Longrightarrow> fst (checkLimits lim k ts) = replicate (length ts) (Inr True)
     \<and> requests (snd (checkLimits lim k ts)) k = Some (pre @ ts)
     \<and> maxRequests (snd (checkLimits lim k ts)) = maxRequests lim
     \<and> timeWindowMs (snd (checkLimits lim k ts)) = timeWindowMs lim"
proof (induction ts arbitrary: lim pre)
  case Nil
  then show ?case by simp
next
  case (Cons t ts)
  have v: "validRequests lim t k = pre"
    using Cons.prems(1,2) by (auto simp: validRequests_def sorted_wrt_append filter_id_conv)
  let ?lim' = "lim\<lparr>requests := (requests lim)(k \<mapsto> pre @ [t])\<rparr>"
  have c: "checkLimit lim t k = (Inr True, ?lim')"
    using Cons.prems(3) v by (simp add: checkLimit_def Let_def)
  have "sorted_wrt (\<lambda>a b. b - a < timeWindowMs ?lim') ((pre @ [t]) @ ts)"
    using Cons.prems(2) by simp
  moreover have "requests ?lim' k = Some (pre @ [t])" by simp
  moreover have "int (length (pre @ [t]) + length ts) \<le> maxRequests ?lim'"
    using Cons.prems(3) by simp
  ultimately show ?case
    using Cons.IH[of ?lim' "pre @ [t]"] c by (simp add: case_prod_beta)
qed

lemma math_min_sorted: "sorted (x # xs) \<Longrightarrow> math_min (x # xs) = Finite x"
proof (induction xs arbitrary: x)
  case Nil
  then show ?case by simp
next
  case (Cons y ys)
  then have "math_min (y # ys) = Finite y" by simp
  with Cons.prems show ?case by simp
qed

lemma sorted_within:
  assumes "sorted (xs @ [b])" and "xs \<noteq> []" and "b - hd xs < (w::int)"
  shows "sorted_wrt (\<lambda>x y. y - x < w) xs \<and> (\<forall>x\<in>set xs. b - x < w)"
proof -
  have lo: "\<forall>x\<in>set xs. hd xs \<le> x"
    using assms(1,2) by (cases xs) (auto simp: sorted_append)
  have hi: "\<forall>x\<in>set xs. x \<le> b"
    using assms(1) by (auto simp: sorted_append)
  have "sorted_wrt (\<lambda>x y. y - x < w) xs"
  proof (rule sorted_wrt_mono_rel[of xs "\<lambda>x y. True"])
    show "sorted_wrt (\<lambda>x y. True) xs" by (induction xs) auto
  next
    fix x y assume "x \<in> set xs" "y \<in> set xs" "True"
    then show "y - x < w" using lo hi assms(3) by fastforce
  qed
  moreover have "\<forall>x\<in>set xs. b - x < w" using lo assms(3) by fastforce
  ultimately show ?thesis by simp
qed

text \<open>
  C9. A limiter admits at least one request (\<open>0 < maxRequests\<close>, as both limiters of the
  module do). Take an identifier with no request inside the window at the first call,
  and \<open>maxRequests\<close> calls at the times \<open>ts\<close>, in time order, followed by a call at
  \<open>t'\<close> that is still less than one window after the first call. Then all calls at
  \<open>ts\<close> succeed; the call at \<open>t'\<close> fails with the wait time
  \<open>window - (t' - oldest)\<close>, where the oldest remaining timestamp is the first call's,
  and that wait time is at most the window; the failed call leaves the limiter as it
  was; and a call at any time \<open>t''\<close> at which the window has elapsed since the oldest
  recorded request succeeds again.
\<close>

theorem checkLimit_sliding_window:
  assumes max: "0 < maxRequests lim" and len: "int (length ts) = maxRequests lim"
    and fresh: "validRequests lim (hd ts) k = []"
    and ord: "sorted (ts @ [t'])"
    and within: "t' - hd ts < timeWindowMs lim"
    and elapsed: "timeWindowMs lim \<le> t'' - hd ts"
  shows "fst (checkLimits lim k ts) = replicate (length ts) (Inr True)
       \<and> checkLimit (snd (checkLimits lim k ts)) t' k
           = (Inl (RateLimitExceeded (Finite (timeWindowMs lim - (t' - hd ts)))),
              snd (checkLimits lim k ts))
       \<and> timeWindowMs lim - (t' - hd ts) \<le> timeWindowMs lim
       \<and> fst (checkLimit (snd (checkLimit (snd (checkLimits lim k ts)) t' k)) t'' k) = Inr True"
proof -
  from max len obtain t1 rest where ts: "ts = t1 # rest" by (cases ts) auto
  let ?lim0 = "lim\<lparr>requests := (requests lim)(k \<mapsto> [t1])\<rparr>"
  let ?lim1 = "snd (checkLimits lim k ts)"
  have first: "checkLimit lim t1 k = (Inr True, ?lim0)"
    using fresh max by (simp add: ts checkLimit_def Let_def)
  have sw: "sorted_wrt (\<lambda>x y. y - x < timeWindowMs lim) ts \<and> (\<forall>x\<in>set ts. t' - x < timeWindowMs lim)"
    using sorted_within[OF ord _ within] ts by simp
  have rest: "fst (checkLimits ?lim0 k rest) = replicate (length rest) (Inr True)
     \<and> requests (snd (checkLimits ?lim0 k rest)) k = Some ([t1] @ rest)
     \<and> maxRequests (snd (checkLimits ?lim0 k rest)) = maxRequests ?lim0
     \<and> timeWindowMs (snd (checkLimits ?lim0 k rest)) = timeWindowMs ?lim0"
    using sw len by (intro checkLimits_ok) (simp_all add: ts)
  have run: "checkLimits lim k ts
               = (Inr True # fst (checkLimits ?lim0 k rest), snd (checkLimits ?lim0 k rest))"
    by (simp add: ts first case_prod_beta)
  have r1: "requests ?lim1 k = Some ts" and m1: "maxRequests ?lim1 = maxRequests lim"
    and w1: "timeWindowMs ?lim1 = timeWindowMs lim"
    using rest run by (simp_all add: ts)
  have A: "fst (checkLimits lim k ts) = replicate (length ts) (Inr True)"
    using rest run by (simp add: ts)
  have v': "validRequests ?lim1 t' k = ts"
    using sw by (simp add: validRequests_def r1 w1 filter_id_conv)
  have mm: "math_min ts = Finite (hd ts)"
    using ord math_min_sorted[of t1 rest] by (simp add: ts sorted_append)
  have B: "checkLimit ?lim1 t' k
           = (Inl (RateLimitExceeded (Finite (timeWindowMs lim - (t' - hd ts)))), ?lim1)"
    using len by (simp add: checkLimit_def Let_def v' m1 w1 mm)
  have "hd ts \<le> t'" using ord by (simp add: ts)
  then have C: "timeWindowMs lim - (t' - hd ts) \<le> timeWindowMs lim" by simp
  have "\<not> (t'' - hd ts < timeWindowMs lim)" using elapsed by simp
  then have "length (filter (\<lambda>x. t'' - x < timeWindowMs lim) ts) < length ts"
    by (intro length_filter_less[of "hd ts"]) (simp_all add: ts)
  then have "int (length (validRequests ?lim1 t'' k)) < maxRequests ?lim1"
    using len by (simp add: validRequests_def r1 w1 m1)
  then have "fst (checkLimit ?lim1 t'' k) = Inr True"
    by (simp add: checkLimit_def Let_def)
  moreover have "snd (checkLimit ?lim1 t' k) = ?lim1"
    by (simp add: B)
  ultimately have D: "fst (checkLimit (snd (checkLimit ?lim1 t' k)) t'' k) = Inr True"
    by simp
  from A B C D show ?thesis by blast
qed

theorem checkLimit_sliding_window_witness:
  "0 < maxRequests small_limiter
   \<and> int (length [1000, 2000, 30000 :: int]) = maxRequests small_limiter
   \<and> validRequests small_limiter 1000 ''s1'' = []
   \<and> sorted ([1000, 2000, 30000] @ [60999 :: int])
   \<and> fst (checkLimits small_limiter ''s1'' [1000, 2000, 30000]) = [Inr True, Inr True, Inr True]
   \<and> fst (checkLimit (snd (checkLimits small_limiter ''s1'' [1000, 2000, 30000])) 60999 ''s1'')
       = Inl (RateLimitExceeded (Finite 1))
   \<and> fst (checkLimit (snd (checkLimit (snd (checkLimits small_limiter ''s1'' [1000, 2000, 30000]))
                               60999 ''s1'')) 61000 ''s1'') = Inr True"
  using checkLimit_sliding_window[of small_limiter "[1000, 2000, 30000]" "''s1''" 60999 61000]
  by (simp add: small_limiter_def validRequests_def checkLimit_def Let_def)

text \<open>
  C10. When the number of timestamps inside the window is at or above \<open>maxRequests\<close>,
  \<open>checkLimit\<close> throws the rate-limit error and the limiter is exactly what it was:
  the list stored for the identifier still holds the timestamps that fell out of the
  window.
\<close>

theorem checkLimit_atomic_on_failure:
  "maxRequests lim \<le> int (length (validRequests lim now k))
   \<Longrightarrow> (\<exists>w. fst (checkLimit lim now k) = Inl (RateLimitExceeded w))
       \<and> snd (checkLimit lim now k) = lim"
  by (simp add: checkLimit_def Let_def)

theorem checkLimit_atomic_on_failure_witness:
  "maxRequests \<lparr>maxRequests = 1, timeWindowMs = 1000, requests = [''s1'' \<mapsto> [5, 2000]]\<rparr>
     \<le> int (length (validRequests
           \<lparr>maxRequests = 1, timeWindowMs = 1000, requests = [''s1'' \<mapsto> [5, 2000]]\<rparr> 2500 ''s1''))
   \<and> fst (checkLimit \<lparr>maxRequests = 1, timeWindowMs = 1000, requests = [''s1'' \<mapsto> [5, 2000]]\<rparr>
            2500 ''s1'') = Inl (RateLimitExceeded (Finite 500))
   \<and> requests (snd (checkLimit
         \<lparr>maxRequests = 1, timeWindowMs = 1000, requests = [''s1'' \<mapsto> [5, 2000]]\<rparr> 2500 ''s1''))
       ''s1'' = Some [5, 2000]"
  using checkLimit_atomic_on_failure[of
      "\<lparr>maxRequests = 1, timeWindowMs = 1000, requests = [''s1'' \<mapsto> [5, 2000]]\<rparr>" 2500 "''s1''"]
  by (simp add: validRequests_def checkLimit_def Let_def)


section \<open>Sending on a session that is not connected\<close>

text \<open>
  C1, as stated, fails. The route checks the rate limit before it calls
  \<open>sendWhatsAppMessage\<close>, so a send on a registered session that is not connected is
  recorded by the limiter before it is rejected: after \<open>POST /connect/s1\<close> and one
  send at time 5000 the reply is the error \<open>NotConnected\<close>, and the limiter, which
  had nothing recorded for \<open>s1\<close>, holds the timestamp 5000.
\<close>

theorem send_route_not_connected_counterexample:
  "fst (send_route whatsappLimiter 5000 ''s1'' ''15551234567'' ''hi'' (Some ''ID'')
         (run baileys [Connect all_ok 0 ''s1''] empty_world)) = Send500 NotConnected
   \<and> requests whatsappLimiter ''s1'' = None
   \<and> requests (snd (send_route whatsappLimiter 5000 ''s1'' ''15551234567'' ''hi'' (Some ''ID'')
         (run baileys [Connect all_ok 0 ''s1''] empty_world))) ''s1'' = Some [5000]"
  by (simp add: send_route_def sendWhatsAppMessage_def checkLimit_def validRequests_def
      whatsappLimiter_def example_defs Let_def)

text \<open>
  C1, amended. For a session that is present in \<open>activeSessions\<close> with
  \<open>isConnected = false\<close>: when the limiter admits the request, the send fails with
  \<open>NotConnected\<close> and the limiter has recorded the request (the timestamps of the
  session inside the window, followed by \<open>now\<close>); when the limiter is exhausted, the
  send fails with the rate-limit error instead and the limiter is unchanged.
\<close>

theorem send_route_not_connected:
  assumes "activeSessions w sessionId = Some r" and "\<not> isConnected (heap w r)"
  shows "send_route lim now sessionId phone message transport w =
     (if maxRequests lim \<le> int (length (validRequests lim now sessionId))
      then (Send429 (RateLimitExceeded
                      (waitTime (timeWindowMs lim) now (math_min (validRequests lim now sessionId)))),
            lim)
      else (Send500 NotConnected,
            lim\<lparr>requests := (requests lim)(sessionId \<mapsto> validRequests lim now sessionId @ [now])\<rparr>))"
  using assms by (simp add: send_route_def sendWhatsAppMessage_def checkLimit_def Let_def)

theorem send_route_not_connected_witness:
  "activeSessions (run baileys [Connect all_ok 0 ''s1''] empty_world) ''s1'' = Some 0
   \<and> \<not> isConnected (heap (run baileys [Connect all_ok 0 ''s1''] empty_world) 0)
   \<and> send_route small_limiter 5000 ''s1'' ''15551234567'' ''hi'' (Some ''ID'')
         (run baileys [Connect all_ok 0 ''s1''] empty_world)
       = (Send500 NotConnected, small_limiter\<lparr>requests := (requests small_limiter)(''s1'' \<mapsto> [5000])\<rparr>)"
  using send_route_not_connected[of "run baileys [Connect all_ok 0 ''s1''] empty_world" "''s1''" 0
      small_limiter 5000 "''15551234567''" "''hi''" "Some ''ID''"]
  by (simp add: small_limiter_def validRequests_def example_defs Let_def)

section \<open>The scanned flag of a pairing code\<close>

text \<open>
  C2, as stated, fails. After the pairing code of \<open>s1\<close> is scanned, \<open>qrScanned\<close> is
  true and \<open>getQRCode\<close> still returns the code; the next close with code 515 sets
  \<open>qrScanned\<close> back to false.
\<close>

theorem qrScanned_reverts_counterexample:
  "qrScanned (heap (run baileys scan_run empty_world) 0)
   \<and> map_option qd_qrCode (getQRCode ''s1'' (run baileys scan_run empty_world)) = Some (Some ''2@abc'')
   \<and> \<not> qrScanned (heap (run baileys (scan_run @ [ConnectionUpdate 0 ''s1'' 3000 None (close_event 515)])
                            empty_world) 0)"
  by (simp add: handler_defs example_defs Let_def)

text \<open>
  C2, amended. The \<open>creds.update\<close> handler sets \<open>qrScanned\<close> of its record to true
  exactly when the credentials were saved and the record holds a pairing code, and it
  leaves the code in the record. The \<open>connection.update\<close> handler never sets the flag
  to true: the flag is true afterwards exactly when it was true before and the event
  is not a close with a recoverable status code (515, 428 or restart-required, and
  not the logged-out code); such a close, received while the flag is true, resets the
  flag to false and clears the code.
\<close>

theorem qrScanned_lifecycle:
  "qrScanned (heap (creds_update r sessionId saved w) r)
     = (qrScanned (heap w r) \<or> (saved \<and> truthy (qrCode (heap w r))))
   \<and> qrCode (heap (creds_update r sessionId saved w) r) = qrCode (heap w r)
   \<and> qrScanned (heap (connection_update dr r sessionId now user_id u w) r)
     = (qrScanned (heap w r)
        \<and> \<not> (connection u = Some ''close'' \<and> statusCode u \<noteq> Some (loggedOut dr)
             \<and> (statusCode u = Some 515 \<or> statusCode u = Some 428
                 \<or> statusCode u = Some (restartRequired dr))))
   \<and> (qrScanned (heap w r) \<and> connection u = Some ''close'' \<and> statusCode u \<noteq> Some (loggedOut dr)
        \<and> (statusCode u = Some 515 \<or> statusCode u = Some 428
            \<or> statusCode u = Some (restartRequired dr))
      \<longrightarrow> qrCode (heap (connection_update dr r sessionId now user_id u w) r) = None)"
proof -
  have a: "qrScanned (heap (creds_update r sessionId saved w) r)
     = (qrScanned (heap w r) \<or> (saved \<and> truthy (qrCode (heap w r))))"
    by (simp add: creds_update_def Let_def)
  have b: "qrCode (heap (creds_update r sessionId saved w) r) = qrCode (heap w r)"
    by (simp add: creds_update_def Let_def)
  have c: "qrScanned (heap (connection_update dr r sessionId now user_id u w) r)
     = (qrScanned (heap w r)
        \<and> \<not> (connection u = Some ''close'' \<and> statusCode u \<noteq> Some (loggedOut dr)
             \<and> (statusCode u = Some 515 \<or> statusCode u = Some 428
                 \<or> statusCode u = Some (restartRequired dr))))"
    by (auto simp add: handler_defs Let_def split: option.splits)
  have d: "qrScanned (heap w r) \<and> connection u = Some ''close'' \<and> statusCode u \<noteq> Some (loggedOut dr)
        \<and> (statusCode u = Some 515 \<or> statusCode u = Some 428
            \<or> statusCode u = Some (restartRequired dr))
      \<longrightarrow> qrCode (heap (connection_update dr r sessionId now user_id u w) r) = None"
    by (auto simp add: handler_defs Let_def split: option.splits)
  from a b c d show ?thesis by blast
qed

theorem qrScanned_lifecycle_witness:
  "qrScanned (heap (run baileys scan_run empty_world) 0)
   \<and> connection (close_event 515) = Some ''close''
   \<and> statusCode (close_event 515) \<noteq> Some (loggedOut baileys)
   \<and> statusCode (close_event 515) = Some 515
   \<and> qrCode (heap (connection_update baileys 0 ''s1'' 3000 None (close_event 515)
                      (run baileys scan_run empty_world)) 0) = None
   \<and> \<not> qrScanned (heap (connection_update baileys 0 ''s1'' 3000 None (close_event 515)
                      (run baileys scan_run empty_world)) 0)"
  using qrScanned_lifecycle[of 0 "''s1''" True "run baileys scan_run empty_world" baileys 3000 None
      "close_event 515"]
  by (simp add: handler_defs example_defs Let_def)


section \<open>Connection closed with a recoverable status code\<close>

text \<open>
  C3, as stated, fails. The timer is set only when the record has none. In the run
  below the connection closes with code 515 when the pairing code has expired (that
  schedules timer 0), the code is scanned half a second later, and the connection
  closes again with code 515 while \<open>qrScanned\<close> is true: the handler schedules nothing,
  the queue still holds timer 0 alone and no timer id has been used since.
\<close>

theorem close_after_scan_counterexample:
  "qrScanned (heap (run baileys (expired_run @ [CredsUpdate 0 ''s1'' True]) empty_world) 0)
   \<and> timers (run baileys (expired_run @ [CredsUpdate 0 ''s1'' True]) empty_world)
       = [\<lparr>t_id = 0, t_owner = 0, t_sid = ''s1'', t_delay = 2000\<rparr>]
   \<and> next_tid (run baileys (expired_run @ [CredsUpdate 0 ''s1'' True]) empty_world) = 1
   \<and> timers (run baileys (expired_run @ [CredsUpdate 0 ''s1'' True,
                ConnectionUpdate 0 ''s1'' 201000 None (close_event 515)]) empty_world)
       = [\<lparr>t_id = 0, t_owner = 0, t_sid = ''s1'', t_delay = 2000\<rparr>]
   \<and> next_tid (run baileys (expired_run @ [CredsUpdate 0 ''s1'' True,
                ConnectionUpdate 0 ''s1'' 201000 None (close_event 515)]) empty_world) = 1"
  by (simp add: handler_defs example_defs Let_def)

text \<open>
  C3, amended. On a close with a recoverable status code (515, 428 or
  restart-required, and not the logged-out code) received while \<open>qrScanned\<close> is true,
  the handler clears the pairing code and sets the status to \<open>reconnecting\<close>; when
  the record has no recovery timer it schedules one with a delay of 2000 ms for this
  record and session id and stores its handle; when the record already has a timer,
  nothing is scheduled and the record keeps the handle it has.
\<close>

theorem close_recoverable_after_scan:
  assumes "connection u = Some ''close''"
    and "statusCode u \<noteq> Some (loggedOut dr)"
    and "statusCode u = Some 515 \<or> statusCode u = Some 428 \<or> statusCode u = Some (restartRequired dr)"
    and "qrScanned (heap w r)"
  shows "qrCode (heap (connection_update dr r sessionId now user_id u w) r) = None
       \<and> status (heap (connection_update dr r sessionId now user_id u w) r) = ''reconnecting''
       \<and> (case reconnectTimer (heap w r) of
             None \<Rightarrow>
               reconnectTimer (heap (connection_update dr r sessionId now user_id u w) r) = Some (next_tid w)
               \<and> timers (connection_update dr r sessionId now user_id u w)
                   = timers w @ [\<lparr>t_id = next_tid w, t_owner = r, t_sid = sessionId, t_delay = 2000\<rparr>]
           | Some t \<Rightarrow>
               reconnectTimer (heap (connection_update dr r sessionId now user_id u w) r) = Some t
               \<and> timers (connection_update dr r sessionId now user_id u w) = timers w)"
  using assms by (auto simp add: handler_defs Let_def split: option.splits)

theorem close_recoverable_after_scan_witness:
  "connection (close_event 515) = Some ''close''
   \<and> statusCode (close_event 515) \<noteq> Some (loggedOut baileys)
   \<and> statusCode (close_event 515) = Some 515
   \<and> qrScanned (heap (run baileys scan_run empty_world) 0)
   \<and> reconnectTimer (heap (run baileys scan_run empty_world) 0) = None
   \<and> qrCode (heap (connection_update baileys 0 ''s1'' 3000 None (close_event 515)
                      (run baileys scan_run empty_world)) 0) = None
   \<and> status (heap (connection_update baileys 0 ''s1'' 3000 None (close_event 515)
                      (run baileys scan_run empty_world)) 0) = ''reconnecting''
   \<and> timers (connection_update baileys 0 ''s1'' 3000 None (close_event 515)
                      (run baileys scan_run empty_world))
       = [\<lparr>t_id = 0, t_owner = 0, t_sid = ''s1'', t_delay = 2000\<rparr>]"
  using close_recoverable_after_scan[of "close_event 515" baileys "run baileys scan_run empty_world" 0
      "''s1''" 3000 None]
  by (simp add: handler_defs example_defs Let_def)

text \<open>
  C4, as stated, fails in its second half, for the same reason. After \<open>expired_run\<close>
  the record holds an expired, unscanned pairing code and timer 0; a second close with
  code 515 half a second later schedules nothing.
\<close>

theorem close_expired_artifact_counterexample:
  "\<not> qrScanned (heap (run baileys expired_run empty_world) 0)
   \<and> qrCode (heap (run baileys expired_run empty_world) 0) = Some ''2@abc''
   \<and> qrGeneratedAt (heap (run baileys expired_run empty_world) 0) = Some 1000
   \<and> timers (run baileys expired_run empty_world)
       = [\<lparr>t_id = 0, t_owner = 0, t_sid = ''s1'', t_delay = 2000\<rparr>]
   \<and> timers (run baileys (expired_run @ [ConnectionUpdate 0 ''s1'' 200500 None (close_event 515)])
               empty_world)
       = [\<lparr>t_id = 0, t_owner = 0, t_sid = ''s1'', t_delay = 2000\<rparr>]
   \<and> next_tid (run baileys (expired_run @ [ConnectionUpdate 0 ''s1'' 200500 None (close_event 515)])
               empty_world) = 1"
  by (simp add: handler_defs example_defs Let_def)

text \<open>
  C4, amended. Take a close event that carries no new pairing code, with a recoverable
  status code, on a record that holds an unscanned pairing code \<open>q\<close> generated at \<open>g\<close>.
  When the code is at most 180 seconds old, no timer is scheduled, the record's timer
  handle is what it was, the status is \<open>qr_pending\<close>, and the code and its generation
  time are unchanged in the record and in what \<open>getQRCode\<close> returns for any session
  id. When the code is older than 180 seconds, the status is \<open>reconnecting\<close>, and a
  timer with a delay of 2000 ms is scheduled when the record has none; when the record
  already has a timer, nothing is scheduled.
\<close>

theorem close_recoverable_with_unscanned_artifact:
  assumes "connection u = Some ''close''" and "\<not> truthy (qr u)"
    and "statusCode u \<noteq> Some (loggedOut dr)"
    and "statusCode u = Some 515 \<or> statusCode u = Some 428 \<or> statusCode u = Some (restartRequired dr)"
    and "\<not> qrScanned (heap w r)" and "qrCode (heap w r) = Some q" and "q \<noteq> []"
    and "qrGeneratedAt (heap w r) = Some g"
  shows "(now - g \<le> 180000 \<longrightarrow>
            timers (connection_update dr r sessionId now user_id u w) = timers w
          \<and> next_tid (connection_update dr r sessionId now user_id u w) = next_tid w
          \<and> reconnectTimer (heap (connection_update dr r sessionId now user_id u w) r)
              = reconnectTimer (heap w r)
          \<and> status (heap (connection_update dr r sessionId now user_id u w) r) = ''qr_pending''
          \<and> qrCode (heap (connection_update dr r sessionId now user_id u w) r) = Some q
          \<and> qrGeneratedAt (heap (connection_update dr r sessionId now user_id u w) r) = Some g
          \<and> map_option qd_qrCode (getQRCode k (connection_update dr r sessionId now user_id u w))
              = map_option qd_qrCode (getQRCode k w)
          \<and> map_option qd_qrGeneratedAt (getQRCode k (connection_update dr r sessionId now user_id u w))
              = map_option qd_qrGeneratedAt (getQRCode k w))
       \<and> (180000 < now - g \<longrightarrow>
            status (heap (connection_update dr r sessionId now user_id u w) r) = ''reconnecting''
          \<and> (case reconnectTimer (heap w r) of
                None \<Rightarrow>
                  reconnectTimer (heap (connection_update dr r sessionId now user_id u w) r)
                    = Some (next_tid w)
                  \<and> timers (connection_update dr r sessionId now user_id u w)
                      = timers w @ [\<lparr>t_id = next_tid w, t_owner = r, t_sid = sessionId, t_delay = 2000\<rparr>]
              | Some t \<Rightarrow>
                  reconnectTimer (heap (connection_update dr r sessionId now user_id u w) r) = Some t
                  \<and> timers (connection_update dr r sessionId now user_id u w) = timers w))"
proof -
  have body: "connection_update dr r sessionId now user_id u w
      = (let (s3, w3) = on_close dr r sessionId now u (heap w r) w in w3\<lparr>heap := (heap w3)(r := s3)\<rparr>)"
    using assms(1,2) by (simp add: connection_update_def on_qr_def Let_def)
  have valid: "now - g \<le> 180000 \<Longrightarrow>
      on_close dr r sessionId now u (heap w r) w
        = ((heap w r)\<lparr>isConnected := False, status := ''qr_pending''\<rparr>, w)"
    using assms by (auto simp add: on_close_def isExpired_def truthy_def Let_def)
  have expired: "180000 < now - g \<Longrightarrow>
      on_close dr r sessionId now u (heap w r) w
        = schedule_reconnect r sessionId 2000
            ((heap w r)\<lparr>isConnected := False, status := ''reconnecting''\<rparr>) w"
    using assms by (auto simp add: on_close_def isExpired_def truthy_def Let_def)
  have A: "now - g \<le> 180000 \<longrightarrow>
            timers (connection_update dr r sessionId now user_id u w) = timers w
          \<and> next_tid (connection_update dr r sessionId now user_id u w) = next_tid w
          \<and> reconnectTimer (heap (connection_update dr r sessionId now user_id u w) r)
              = reconnectTimer (heap w r)
          \<and> status (heap (connection_update dr r sessionId now user_id u w) r) = ''qr_pending''
          \<and> qrCode (heap (connection_update dr r sessionId now user_id u w) r) = Some q
          \<and> qrGeneratedAt (heap (connection_update dr r sessionId now user_id u w) r) = Some g
          \<and> map_option qd_qrCode (getQRCode k (connection_update dr r sessionId now user_id u w))
              = map_option qd_qrCode (getQRCode k w)
          \<and> map_option qd_qrGeneratedAt (getQRCode k (connection_update dr r sessionId now user_id u w))
              = map_option qd_qrGeneratedAt (getQRCode k w)"
    using assms(6,8) by (auto simp add: body valid getQRCode_def Let_def split: option.splits)
  have B: "180000 < now - g \<longrightarrow>
            status (heap (connection_update dr r sessionId now user_id u w) r) = ''reconnecting''
          \<and> (case reconnectTimer (heap w r) of
                None \<Rightarrow>
                  reconnectTimer (heap (connection_update dr r sessionId now user_id u w) r)
                    = Some (next_tid w)
                  \<and> timers (connection_update dr r sessionId now user_id u w)
                      = timers w @ [\<lparr>t_id = next_tid w, t_owner = r, t_sid = sessionId, t_delay = 2000\<rparr>]
              | Some t \<Rightarrow>
                  reconnectTimer (heap (connection_update dr r sessionId now user_id u w) r) = Some t
                  \<and> timers (connection_update dr r sessionId now user_id u w) = timers w)"
    by (auto simp add: body expired schedule_reconnect_def setTimeout_def Let_def split: option.splits)
  from A B show ?thesis by blast
qed

theorem close_recoverable_with_unscanned_artifact_witness:
  "connection (close_event 428) = Some ''close'' \<and> \<not> truthy (qr (close_event 428))
   \<and> statusCode (close_event 428) \<noteq> Some (loggedOut baileys)
   \<and> statusCode (close_event 428) = Some 428
   \<and> \<not> qrScanned (heap (run baileys qr_run empty_world) 0)
   \<and> qrCode (heap (run baileys qr_run empty_world) 0) = Some ''2@abc''
   \<and> qrGeneratedAt (heap (run baileys qr_run empty_world) 0) = Some 1000
   \<and> timers (connection_update baileys 0 ''s1'' 181000 None (close_event 428)
               (run baileys qr_run empty_world)) = []
   \<and> status (heap (connection_update baileys 0 ''s1'' 181000 None (close_event 428)
               (run baileys qr_run empty_world)) 0) = ''qr_pending''
   \<and> map_option qd_qrCode (getQRCode ''s1'' (connection_update baileys 0 ''s1'' 181000 None
               (close_event 428) (run baileys qr_run empty_world))) = Some (Some ''2@abc'')
   \<and> status (heap (connection_update baileys 0 ''s1'' 181001 None (close_event 428)
               (run baileys qr_run empty_world)) 0) = ''reconnecting''
   \<and> timers (connection_update baileys 0 ''s1'' 181001 None (close_event 428)
               (run baileys qr_run empty_world))
       = [\<lparr>t_id = 0, t_owner = 0, t_sid = ''s1'', t_delay = 2000\<rparr>]"
  using close_recoverable_with_unscanned_artifact[of "close_event 428" baileys
      "run baileys qr_run empty_world" 0 "''2@abc''" 1000 181000 "''s1''" None "''s1''"]
    close_recoverable_with_unscanned_artifact[of "close_event 428" baileys
      "run baileys qr_run empty_world" 0 "''2@abc''" 1000 181001 "''s1''" None "''s1''"]
  by (simp add: handler_defs example_defs Let_def)

section \<open>Connection closed with the logged-out status code\<close>

text \<open>
  C5. On a close event that carries \<open>DisconnectReason.loggedOut\<close>, the handler leaves
  its record with status \<open>disconnected\<close>, not connected and without a recovery timer;
  the timer the record had, if any, is removed from the queue of pending timers and no
  timer is added (no timer id is used); \<open>activeSessions\<close> has no record for the
  session id; and the credential directory of the session id no longer exists.
\<close>

theorem close_logged_out:
  assumes "connection u = Some ''close''" and "statusCode u = Some (loggedOut dr)"
  shows "status (heap (connection_update dr r sessionId now user_id u w) r) = ''disconnected''
       \<and> \<not> isConnected (heap (connection_update dr r sessionId now user_id u w) r)
       \<and> reconnectTimer (heap (connection_update dr r sessionId now user_id u w) r) = None
       \<and> activeSessions (connection_update dr r sessionId now user_id u w) sessionId = None
       \<and> auth_sessions (connection_update dr r sessionId now user_id u w) sessionId = None
       \<and> timers (connection_update dr r sessionId now user_id u w)
           = (case reconnectTimer (heap w r) of
                None \<Rightarrow> timers w
              | Some t \<Rightarrow> filter (\<lambda>x. t_id x \<noteq> t) (timers w))
       \<and> next_tid (connection_update dr r sessionId now user_id u w) = next_tid w"
  using assms by (simp add: handler_defs Let_def split: option.splits)

theorem close_logged_out_witness:
  "connection (close_event 401) = Some ''close''
   \<and> statusCode (close_event 401) = Some (loggedOut baileys)
   \<and> activeSessions (run baileys reconnecting_run empty_world) ''s1'' = Some 0
   \<and> auth_sessions (run baileys reconnecting_run empty_world) ''s1'' = Some True
   \<and> timers (run baileys reconnecting_run empty_world)
       = [\<lparr>t_id = 0, t_owner = 0, t_sid = ''s1'', t_delay = 3000\<rparr>]
   \<and> status (heap (connection_update baileys 0 ''s1'' 6000 None (close_event 401)
                (run baileys reconnecting_run empty_world)) 0) = ''disconnected''
   \<and> activeSessions (connection_update baileys 0 ''s1'' 6000 None (close_event 401)
                (run baileys reconnecting_run empty_world)) ''s1'' = None
   \<and> auth_sessions (connection_update baileys 0 ''s1'' 6000 None (close_event 401)
                (run baileys reconnecting_run empty_world)) ''s1'' = None
   \<and> timers (connection_update baileys 0 ''s1'' 6000 None (close_event 401)
                (run baileys reconnecting_run empty_world)) = []"
  using close_logged_out[of "close_event 401" baileys 0 "''s1''" 6000 None
      "run baileys reconnecting_run empty_world"]
  by (simp add: handler_defs example_defs Let_def)


section \<open>Expiry of the pairing code in \<open>GET /qr/:sessionId\<close>\<close>

text \<open>
  C6, as stated, fails at the boundary. The route takes a code as expired when its age
  is greater than 180000 ms, so a query made exactly 180 seconds after the generation
  (the code was generated at 1000, the query is made at 181000) still returns the
  stored code with the status of the session.
\<close>

theorem qr_route_boundary_counterexample:
  "qrGeneratedAt (heap (run baileys qr_run empty_world) 0) = Some 1000
   \<and> response_qrCode (qr_route 181000 ''s1'' (run baileys qr_run empty_world)) = Some ''2@abc''
   \<and> response_status (qr_route 181000 ''s1'' (run baileys qr_run empty_world)) = Some ''qr_pending''"
  by (simp add: qr_route_def handler_defs example_defs Let_def)

text \<open>
  C6, amended. For a session whose record holds a pairing code \<open>q\<close> generated at time
  \<open>t\<close>: a query at any time \<open>now > t + 180 s\<close> returns \<open>qrCode\<close> null with status
  \<open>qr_expired\<close>, and a query at any time \<open>now \<le> t + 180 s\<close> returns the stored code
  with the status of the session.
\<close>

theorem qr_route_expiry:
  assumes "activeSessions w sessionId = Some r"
    and "qrCode (heap w r) = Some q" and "q \<noteq> []"
    and "qrGeneratedAt (heap w r) = Some t"
  shows "(t + 180000 < now \<longrightarrow>
            response_qrCode (qr_route now sessionId w) = None
          \<and> response_status (qr_route now sessionId w) = Some ''qr_expired'')
       \<and> (now \<le> t + 180000 \<longrightarrow>
            response_qrCode (qr_route now sessionId w) = Some q
          \<and> response_status (qr_route now sessionId w) = Some (status (heap w r)))"
  using assms by (auto simp add: qr_route_def getQRCode_def isExpired_def truthy_def Let_def)

theorem qr_route_expiry_witness:
  "activeSessions (run baileys qr_run empty_world) ''s1'' = Some 0
   \<and> qrCode (heap (run baileys qr_run empty_world) 0) = Some ''2@abc''
   \<and> qrGeneratedAt (heap (run baileys qr_run empty_world) 0) = Some 1000
   \<and> response_qrCode (qr_route 181001 ''s1'' (run baileys qr_run empty_world)) = None
   \<and> response_status (qr_route 181001 ''s1'' (run baileys qr_run empty_world)) = Some ''qr_expired''
   \<and> response_qrCode (qr_route 180999 ''s1'' (run baileys qr_run empty_world)) = Some ''2@abc''
   \<and> response_status (qr_route 180999 ''s1'' (run baileys qr_run empty_world)) = Some ''qr_pending''"
  using qr_route_expiry[of "run baileys qr_run empty_world" "''s1''" 0 "''2@abc''" 1000 181001]
    qr_route_expiry[of "run baileys qr_run empty_world" "''s1''" 0 "''2@abc''" 1000 180999]
  by (simp add: handler_defs example_defs Let_def)

section \<open>Recovery timers\<close>

text \<open>
  On one record the guard holds: scheduling on a record that has a timer changes
  nothing. The explicit disconnect clears the timer of the record before it removes
  the record from \<open>activeSessions\<close>. \<open>initializeWhatsApp\<close> removes a record that is not
  reusable from \<open>activeSessions\<close> as well, but it never touches the queue of timers,
  so the timer of the removed record stays pending.
\<close>

lemma schedule_reconnect_idempotent:
  "reconnectTimer s = Some t \<Longrightarrow> schedule_reconnect r sessionId delay s w = (s, w)"
  by (simp add: schedule_reconnect_def)

lemma disconnect_route_clears_timer:
  "activeSessions w sessionId = Some r \<Longrightarrow> reconnectTimer (heap w r) = Some t
   \<Longrightarrow> timers (disconnect_route sessionId w) = filter (\<lambda>x. t_id x \<noteq> t) (timers w)
     \<and> activeSessions (disconnect_route sessionId w) sessionId = None"
  by (simp add: disconnect_route_def clear_reconnect_def clearTimeout_def Let_def split: option.splits)

lemma initializeWhatsApp_keeps_timers:
  "timers (snd (initializeWhatsApp e now sessionId w)) = timers w"
  unfolding initializeWhatsApp_def prepare_credentials_def Let_def
  by (auto split: option.splits bool.splits)

text \<open>
  C7 fails on the code. In \<open>two_timers_run\<close> the first record of \<open>s1\<close> schedules a
  recovery at time 1000 (due at 4000); a second \<open>POST /connect/s1\<close> at 1500 replaces
  the record without clearing that timer; the second record schedules its own recovery
  at 2500. Two recovery timers of session \<open>s1\<close> are then pending together, each of
  which will call \<open>initializeWhatsApp\<close> for \<open>s1\<close>.
\<close>

theorem two_recovery_timers_for_one_session:
  "timers (run baileys two_timers_run empty_world)
     = [\<lparr>t_id = 0, t_owner = 0, t_sid = ''s1'', t_delay = 3000\<rparr>,
        \<lparr>t_id = 1, t_owner = 1, t_sid = ''s1'', t_delay = 3000\<rparr>]
   \<and> activeSessions (run baileys two_timers_run empty_world) ''s1'' = Some 1"
  by (simp add: handler_defs example_defs Let_def)

text \<open>
  When the stale timer fires at 4000 it ends the socket of the second record and
  registers a third record for \<open>s1\<close>, while the timer of the second record is pending.
\<close>

lemma stale_timer_fires:
  "timers (run baileys (two_timers_run @ [TimerFires all_ok 4000 0]) empty_world)
     = [\<lparr>t_id = 1, t_owner = 1, t_sid = ''s1'', t_delay = 3000\<rparr>]
   \<and> activeSessions (run baileys (two_timers_run @ [TimerFires all_ok 4000 0]) empty_world) ''s1''
       = Some 2
   \<and> ended (run baileys (two_timers_run @ [TimerFires all_ok 4000 0]) empty_world) = [0, 1]"
  by (simp add: handler_defs example_defs fire_timer_def Let_def)

section \<open>Re-entrant \<open>initializeWhatsApp\<close>\<close>

text \<open>
  C8. Let the session id have a record. When the record is connected, or when it is
  not connected and holds an unscanned pairing code that is at most 180 seconds old,
  the call returns the address of that record and the whole process state is
  unchanged: no socket is created or ended. For every other record the call behaves as
  the call on the state in which the socket of the record has been ended and the
  session id has no record: that socket is in the list of ended sockets, and either the
  attempt succeeds, returning a new record in status \<open>connecting\<close> with a newly
  created socket, registered under the session id, or it fails with an error and the
  session id has no record.
\<close>

theorem initializeWhatsApp_reentrant:
  assumes "activeSessions w sessionId = Some r"
  shows "(isConnected (heap w r) \<longrightarrow> initializeWhatsApp e now sessionId w = (Inr r, w))
       \<and> (\<not> isConnected (heap w r) \<and> truthy (qrCode (heap w r)) \<and> \<not> qrScanned (heap w r)
            \<and> (\<exists>g. qrGeneratedAt (heap w r) = Some g \<and> now - g \<le> 180000)
          \<longrightarrow> initializeWhatsApp e now sessionId w = (Inr r, w))
       \<and> (\<not> isConnected (heap w r)
            \<and> \<not> (truthy (qrCode (heap w r)) \<and> \<not> qrScanned (heap w r)
                   \<and> (\<exists>g. qrGeneratedAt (heap w r) = Some g \<and> now - g \<le> 180000))
          \<longrightarrow> initializeWhatsApp e now sessionId w
                = initializeWhatsApp e now sessionId
                    (w\<lparr>ended := (case socket (heap w r) of None \<Rightarrow> ended w | Some k \<Rightarrow> ended w @ [k]),
                       activeSessions := (activeSessions w)(sessionId := None)\<rparr>)
            \<and> ended (snd (initializeWhatsApp e now sessionId w))
                = (case socket (heap w r) of None \<Rightarrow> ended w | Some k \<Rightarrow> ended w @ [k])
            \<and> (if net_reachable e \<and> socket_creatable e
                then fst (initializeWhatsApp e now sessionId w) = Inr (next_ref w)
                   \<and> activeSessions (snd (initializeWhatsApp e now sessionId w)) sessionId
                       = Some (next_ref w)
                   \<and> heap (snd (initializeWhatsApp e now sessionId w)) (next_ref w)
                       = \<lparr>socket = Some (next_sock w), isConnected = False, qrCode = None,
                          qrGeneratedAt = None, qrScanned = False, phoneNumber = None,
                          status = ''connecting'', reconnectTimer = None\<rparr>
                   \<and> next_sock (snd (initializeWhatsApp e now sessionId w)) = next_sock w + 1
                else (\<exists>err. fst (initializeWhatsApp e now sessionId w) = Inl err)
                   \<and> activeSessions (snd (initializeWhatsApp e now sessionId w)) sessionId = None))"
proof -
  have A: "isConnected (heap w r) \<longrightarrow> initializeWhatsApp e now sessionId w = (Inr r, w)"
    using assms by (simp add: initializeWhatsApp_def Let_def)
  have B: "\<not> isConnected (heap w r) \<and> truthy (qrCode (heap w r)) \<and> \<not> qrScanned (heap w r)
            \<and> (\<exists>g. qrGeneratedAt (heap w r) = Some g \<and> now - g \<le> 180000)
          \<longrightarrow> initializeWhatsApp e now sessionId w = (Inr r, w)"
    using assms by (auto simp add: initializeWhatsApp_def isExpired_def Let_def)
  let ?torn = "w\<lparr>ended := (case socket (heap w r) of None \<Rightarrow> ended w | Some k \<Rightarrow> ended w @ [k]),
                  activeSessions := (activeSessions w)(sessionId := None)\<rparr>"
  have C: "initializeWhatsApp e now sessionId w = initializeWhatsApp e now sessionId ?torn
            \<and> ended (snd (initializeWhatsApp e now sessionId w))
                = (case socket (heap w r) of None \<Rightarrow> ended w | Some k \<Rightarrow> ended w @ [k])
            \<and> (if net_reachable e \<and> socket_creatable e
                then fst (initializeWhatsApp e now sessionId w) = Inr (next_ref w)
                   \<and> activeSessions (snd (initializeWhatsApp e now sessionId w)) sessionId
                       = Some (next_ref w)
                   \<and> heap (snd (initializeWhatsApp e now sessionId w)) (next_ref w)
                       = \<lparr>socket = Some (next_sock w), isConnected = False, qrCode = None,
                          qrGeneratedAt = None, qrScanned = False, phoneNumber = None,
                          status = ''connecting'', reconnectTimer = None\<rparr>
                   \<and> next_sock (snd (initializeWhatsApp e now sessionId w)) = next_sock w + 1
                else (\<exists>err. fst (initializeWhatsApp e now sessionId w) = Inl err)
                   \<and> activeSessions (snd (initializeWhatsApp e now sessionId w)) sessionId = None)"
    if h: "\<not> isConnected (heap w r)"
          "\<not> (truthy (qrCode (heap w r)) \<and> \<not> qrScanned (heap w r)
                   \<and> (\<exists>g. qrGeneratedAt (heap w r) = Some g \<and> now - g \<le> 180000))"
  proof -
    have keep: "\<not> (if truthy (qrCode (heap w r)) \<and> qrGeneratedAt (heap w r) \<noteq> None
                        \<and> \<not> qrScanned (heap w r)
                    then (case qrGeneratedAt (heap w r) of None \<Rightarrow> False | Some g \<Rightarrow> \<not> isExpired now g)
                    else False)"
      using h(2) by (auto simp add: isExpired_def split: option.splits)
    have old: "initializeWhatsApp e now sessionId w =
       (let w1 = prepare_credentials sessionId ?torn
        in if \<not> net_reachable e then (Inl NetworkUnreachable, w1)
           else if \<not> socket_creatable e then (Inl SocketCreationFailed, w1)
           else (Inr (next_ref w1),
                 w1\<lparr>heap := (heap w1)(next_ref w1 :=
                         \<lparr>socket = Some (next_sock w1), isConnected = False, qrCode = None,
                          qrGeneratedAt = None, qrScanned = False, phoneNumber = None,
                          status = ''connecting'', reconnectTimer = None\<rparr>),
                    activeSessions := (activeSessions w1)(sessionId \<mapsto> next_ref w1),
                    next_sock := next_sock w1 + 1, next_ref := next_ref w1 + 1\<rparr>))"
      using assms h(1) keep unfolding initializeWhatsApp_def Let_def
      by (simp split: option.splits)
    have new: "initializeWhatsApp e now sessionId ?torn =
       (let w1 = prepare_credentials sessionId ?torn
        in if \<not> net_reachable e then (Inl NetworkUnreachable, w1)
           else if \<not> socket_creatable e then (Inl SocketCreationFailed, w1)
           else (Inr (next_ref w1),
                 w1\<lparr>heap := (heap w1)(next_ref w1 :=
                         \<lparr>socket = Some (next_sock w1), isConnected = False, qrCode = None,
                          qrGeneratedAt = None, qrScanned = False, phoneNumber = None,
                          status = ''connecting'', reconnectTimer = None\<rparr>),
                    activeSessions := (activeSessions w1)(sessionId \<mapsto> next_ref w1),
                    next_sock := next_sock w1 + 1, next_ref := next_ref w1 + 1\<rparr>))"
      unfolding initializeWhatsApp_def Let_def by simp
    show ?thesis
      unfolding new unfolding old
      by (simp add: prepare_credentials_def Let_def)
  qed
  from A B C show ?thesis by blast
qed

theorem initializeWhatsApp_reentrant_witness:
  "activeSessions (run baileys connected_run empty_world) ''s1'' = Some 0
   \<and> isConnected (heap (run baileys connected_run empty_world) 0)
   \<and> initializeWhatsApp all_ok 5000 ''s1'' (run baileys connected_run empty_world)
       = (Inr 0, run baileys connected_run empty_world)
   \<and> activeSessions (run baileys qr_run empty_world) ''s1'' = Some 0
   \<and> \<not> isConnected (heap (run baileys qr_run empty_world) 0)
   \<and> truthy (qrCode (heap (run baileys qr_run empty_world) 0))
   \<and> \<not> qrScanned (heap (run baileys qr_run empty_world) 0)
   \<and> qrGeneratedAt (heap (run baileys qr_run empty_world) 0) = Some 1000
   \<and> initializeWhatsApp all_ok 181000 ''s1'' (run baileys qr_run empty_world)
       = (Inr 0, run baileys qr_run empty_world)
   \<and> fst (initializeWhatsApp all_ok 181001 ''s1'' (run baileys qr_run empty_world)) = Inr 1
   \<and> ended (snd (initializeWhatsApp all_ok 181001 ''s1'' (run baileys qr_run empty_world))) = [0]
   \<and> activeSessions (snd (initializeWhatsApp all_ok 181001 ''s1'' (run baileys qr_run empty_world)))
        ''s1'' = Some 1
   \<and> next_sock (snd (initializeWhatsApp all_ok 181001 ''s1'' (run baileys qr_run empty_world))) = 2"
  using initializeWhatsApp_reentrant[of "run baileys connected_run empty_world" "''s1''" 0 all_ok 5000]
    initializeWhatsApp_reentrant[of "run baileys qr_run empty_world" "''s1''" 0 all_ok 181000]
    initializeWhatsApp_reentrant[of "run baileys qr_run empty_world" "''s1''" 0 all_ok 181001]
  by (simp add: handler_defs example_defs Let_def)

end
